theory Spec2Isabelle
  imports Main "HOL-Library.AList"
begin

section \<open>Python values as they reach the connector\<close>

text \<open>
  Every value that \<^verbatim>\<open>app.py\<close> handles comes out of a JSON document (the POSTed
  JSON-RPC body, the upstream response body) or is built from literals, so a Python value
  is a JSON value: \<open>None\<close>, a bool, an unbounded int, a float, a str, a list or a dict. A
  dict is an association list in insertion order, read with \<open>map_of\<close> and written with
  \<open>AList.update\<close> (an existing key keeps its place, a new key goes to the end, as in
  Python). A float is kept as the text Python's \<open>repr\<close> prints for it, which determines
  it. A str is the list of its code points; \<open>char\<close> has the code points below 256.
\<close>

datatype json =
    JNull
  | JBool bool
  | JInt int
  | JFloat string
  | JStr string
  | JArr "json list"
  | JObj "(string \<times> json) list"

type_synonym dict = "(string \<times> json) list"

subsection \<open>Characters and numbers as text\<close>

definition BACKSLASH :: char where "BACKSLASH = CHR 0x5C"
definition QUOTE :: char where "QUOTE = CHR 0x27"
definition DQUOTE :: char where "DQUOTE = CHR 0x22"
definition NEWLINE :: char where "NEWLINE = CHR 0x0A"

definition digit_char :: "nat \<Rightarrow> char" where
  "digit_char d = ''0123456789abcdef'' ! (d mod 16)"

definition hex2 :: "nat \<Rightarrow> string" where
  "hex2 n = [digit_char (n div 16), digit_char (n mod 16)]"

function str_nat :: "nat \<Rightarrow> string" where
  "str_nat n = (if n < 10 then [digit_char n] else str_nat (n div 10) @ [digit_char (n mod 10)])"
  by pat_completeness auto
termination
  by (relation "measure id") auto

declare str_nat.simps [simp del]

text \<open>\<open>str(i)\<close> of a Python int: decimal digits, a minus sign in front when negative.\<close>

definition str_int :: "int \<Rightarrow> string" where
  "str_int i = (if i < 0 then ''-'' @ str_nat (nat (- i)) else str_nat (nat i))"

text \<open>\<open>sep.join(parts)\<close>.\<close>

fun str_join :: "string \<Rightarrow> string list \<Rightarrow> string" where
  "str_join sep [] = []"
| "str_join sep [x] = x"
| "str_join sep (x # y # ys) = x @ sep @ str_join sep (y # ys)"

subsection \<open>\<open>repr\<close> and \<open>str\<close>\<close>

text \<open>
  \<open>repr\<close> of a str picks the single quote unless the text has a single quote and no
  double quote, escapes the quote, the backslash, tab, newline and carriage return, and
  writes every other code point that \<open>str.isprintable\<close> rejects as \<open>\xhh\<close>. Below 256
  the printable code points are 32 to 126 and 161 to 255 without 173.
\<close>

definition repr_quote :: "string \<Rightarrow> char" where
  "repr_quote s = (if QUOTE \<in> set s \<and> DQUOTE \<notin> set s then DQUOTE else QUOTE)"

definition printable :: "char \<Rightarrow> bool" where
  "printable c = (let n = (of_char c :: nat) in (32 \<le> n \<and> n < 127) \<or> (161 \<le> n \<and> n \<noteq> 173))"

definition repr_char :: "char \<Rightarrow> char \<Rightarrow> string" where
  "repr_char q c =
     (if c = q \<or> c = BACKSLASH then [BACKSLASH, c]
      else if c = CHR 0x09 then [BACKSLASH, CHR ''t'']
      else if c = CHR 0x0A then [BACKSLASH, CHR ''n'']
      else if c = CHR 0x0D then [BACKSLASH, CHR ''r'']
      else if printable c then [c]
      else [BACKSLASH, CHR ''x''] @ hex2 (of_char c))"

definition repr_str :: "string \<Rightarrow> string" where
  "repr_str s = (let q = repr_quote s in [q] @ concat (map (repr_char q) s) @ [q])"

primrec py_repr :: "json \<Rightarrow> string" where
  "py_repr JNull = ''None''"
| "py_repr (JBool b) = (if b then ''True'' else ''False'')"
| "py_repr (JInt i) = str_int i"
| "py_repr (JFloat r) = r"
| "py_repr (JStr s) = repr_str s"
| "py_repr (JArr xs) = ''['' @ str_join '', '' (map py_repr xs) @ '']''"
| "py_repr (JObj kvs) =
     ''{'' @ str_join '', '' (map (\<lambda>(k, r). repr_str k @ '': '' @ r) (map (map_prod id py_repr) kvs)) @ ''}''"

text \<open>
  \<open>str(v)\<close>, which is also what an f-string field \<open>{v}\<close> inserts: the text itself for a
  str, \<open>repr(v)\<close> for everything else.
\<close>

definition py_str :: "json \<Rightarrow> string" where
  "py_str v = (case v of JStr s \<Rightarrow> s | _ \<Rightarrow> py_repr v)"

text \<open>Truth value of a Python value, as \<open>if v:\<close>, \<open>not v\<close> and \<open>v or d\<close> test it.\<close>

definition truthy :: "json \<Rightarrow> bool" where
  "truthy v =
     (case v of
        JNull \<Rightarrow> False
      | JBool b \<Rightarrow> b
      | JInt i \<Rightarrow> i \<noteq> 0
      | JFloat r \<Rightarrow> r \<noteq> ''0.0'' \<and> r \<noteq> ''-0.0''
      | JStr s \<Rightarrow> s \<noteq> []
      | JArr xs \<Rightarrow> xs \<noteq> []
      | JObj kvs \<Rightarrow> kvs \<noteq> [])"

subsection \<open>\<open>json.dumps(v, indent=2, default=str)\<close>\<close>

text \<open>
  The encoder escapes (\<open>ensure_ascii\<close>) the double quote, the backslash and the five
  named control characters, keeps the code points 32 to 126 and writes every other one as
  \<open>\u00hh\<close>. With an indent, an empty list or dict is \<open>[]\<close> or \<open>{}\<close>, and a non-empty one
  puts each item on a line of its own, two spaces deeper per level, items separated by a
  comma, key and value by a colon and a space. \<open>default=str\<close> is only asked for values
  that are not JSON values, and there are none here.
\<close>

definition json_escape_char :: "char \<Rightarrow> string" where
  "json_escape_char c =
     (if c = DQUOTE then [BACKSLASH, DQUOTE]
      else if c = BACKSLASH then [BACKSLASH, BACKSLASH]
      else if c = CHR 0x0A then [BACKSLASH, CHR ''n'']
      else if c = CHR 0x0D then [BACKSLASH, CHR ''r'']
      else if c = CHR 0x09 then [BACKSLASH, CHR ''t'']
      else if c = CHR 0x0C then [BACKSLASH, CHR ''f'']
      else if c = CHR 0x08 then [BACKSLASH, CHR ''b'']
      else if 32 \<le> (of_char c :: nat) \<and> (of_char c :: nat) \<le> 126 then [c]
      else [BACKSLASH, CHR ''u'', CHR ''0'', CHR ''0''] @ hex2 (of_char c))"

definition json_string :: "string \<Rightarrow> string" where
  "json_string s = [DQUOTE] @ concat (map json_escape_char s) @ [DQUOTE]"

definition json_float :: "string \<Rightarrow> string" where
  "json_float r =
     (if r = ''nan'' then ''NaN'' else if r = ''inf'' then ''Infinity''
      else if r = ''-inf'' then ''-Infinity'' else r)"

definition newline_indent :: "nat \<Rightarrow> string" where
  "newline_indent level = NEWLINE # replicate (2 * level) CHR '' ''"

definition encode_items :: "char \<Rightarrow> char \<Rightarrow> string list \<Rightarrow> nat \<Rightarrow> string" where
  "encode_items opening closing items level =
     (if items = [] then [opening, closing]
      else [opening] @ newline_indent (Suc level)
           @ str_join ('','' @ newline_indent (Suc level)) items
           @ newline_indent level @ [closing])"

primrec json_encode :: "json \<Rightarrow> nat \<Rightarrow> string" where
  "json_encode JNull = (\<lambda>level. ''null'')"
| "json_encode (JBool b) = (\<lambda>level. if b then ''true'' else ''false'')"
| "json_encode (JInt i) = (\<lambda>level. str_int i)"
| "json_encode (JFloat r) = (\<lambda>level. json_float r)"
| "json_encode (JStr s) = (\<lambda>level. json_string s)"
| "json_encode (JArr xs) =
     (\<lambda>level. encode_items CHR ''['' CHR '']''
        (map (\<lambda>enc. enc (Suc level)) (map json_encode xs)) level)"
| "json_encode (JObj kvs) =
     (\<lambda>level. encode_items CHR ''{'' CHR ''}''
        (map (\<lambda>(k, enc). json_string k @ '': '' @ enc (Suc level)) (map (map_prod id json_encode) kvs))
        level)"

definition json_dumps :: "json \<Rightarrow> string" where
  "json_dumps v = json_encode v 0"

subsection \<open>Exceptions\<close>

text \<open>
  A raised exception is a value: \<open>KeyError\<close> with the missing key, \<open>TypeError\<close> and
  \<open>AttributeError\<close> with their message, and \<open>Exn\<close> for every exception raised by a
  library (the HTTP client, the response's JSON decoder, the web framework), with the
  message \<open>str(e)\<close> gives. \<open>str\<close> of a \<open>KeyError\<close> is the \<open>repr\<close> of its key.
\<close>

datatype pyexn = KeyError string | TypeError string | AttributeError string | Exn string

definition exn_str :: "pyexn \<Rightarrow> string" where
  "exn_str e =
     (case e of KeyError k \<Rightarrow> repr_str k | TypeError m \<Rightarrow> m | AttributeError m \<Rightarrow> m | Exn m \<Rightarrow> m)"

definition type_name :: "json \<Rightarrow> string" where
  "type_name v =
     (case v of JNull \<Rightarrow> ''NoneType'' | JBool b \<Rightarrow> ''bool'' | JInt i \<Rightarrow> ''int''
      | JFloat r \<Rightarrow> ''float'' | JStr s \<Rightarrow> ''str'' | JArr xs \<Rightarrow> ''list'' | JObj kvs \<Rightarrow> ''dict'')"

text \<open>
  \<open>obj[key]\<close> with a str key: the value in a dict that has the key, \<open>KeyError\<close> in a dict
  that has not, \<open>TypeError\<close> on anything that is not a dict (messages of CPython 3.11).
\<close>

definition py_getitem :: "json \<Rightarrow> string \<Rightarrow> pyexn + json" where
  "py_getitem obj key =
     (case obj of
        JObj kvs \<Rightarrow> (case map_of kvs key of None \<Rightarrow> Inl (KeyError key) | Some v \<Rightarrow> Inr v)
      | JArr xs \<Rightarrow> Inl (TypeError ''list indices must be integers or slices, not str'')
      | JStr s \<Rightarrow> Inl (TypeError (''string indices must be integers, not '' @ [QUOTE] @ ''str'' @ [QUOTE]))
      | _ \<Rightarrow> Inl (TypeError ([QUOTE] @ type_name obj @ [QUOTE] @ '' object is not subscriptable'')))"

text \<open>
  \<open>obj.get(key, default)\<close>: only a dict has the method, every other value raises
  \<open>AttributeError\<close>.
\<close>

definition py_get :: "json \<Rightarrow> string \<Rightarrow> json \<Rightarrow> pyexn + json" where
  "py_get obj key dflt =
     (case obj of
        JObj kvs \<Rightarrow> (case map_of kvs key of None \<Rightarrow> Inr dflt | Some v \<Rightarrow> Inr v)
      | _ \<Rightarrow> Inl (AttributeError ([QUOTE] @ type_name obj @ [QUOTE] @ '' object has no attribute ''
                    @ [QUOTE] @ ''get'' @ [QUOTE])))"

text \<open>
  Sequencing under exceptions: a step that raised ends the computation with the state as
  it is; a step that returned hands its value to the rest.
\<close>

definition on :: "pyexn + 'a \<Rightarrow> ('a \<Rightarrow> 's \<Rightarrow> (pyexn + 'b) \<times> 's) \<Rightarrow> 's \<Rightarrow> (pyexn + 'b) \<times> 's" where
  "on step rest s = (case step of Inl e \<Rightarrow> (Inl e, s) | Inr v \<Rightarrow> rest v s)"

section \<open>The Backend Client: \<open>vercel_request\<close>\<close>

text \<open>
  The process-wide configuration is read from the environment once; an unset variable is
  the empty string.
\<close>

record config =
  VERCEL_TOKEN :: string
  VERCEL_TEAM_ID :: string

definition BASE_URL :: string where
  "BASE_URL = ''https://api.vercel.com''"

text \<open>
  The HTTP client is outside the repository. A request is what \<open>vercel_request\<close> hands to
  \<open>client.get\<close>, \<open>post\<close>, \<open>patch\<close>, \<open>delete\<close> or \<open>put\<close>; the network answers with a
  response or the client raises (timeout, connection failure, a value it cannot encode).
  Of a response the code reads \<open>status_code\<close>, \<open>text\<close> and \<open>json()\<close>, which returns the
  decoded body or raises. The network is a function from the request to its outcome.
\<close>

record http_request =
  req_method :: string
  req_url :: string
  req_headers :: "(string \<times> string) list"
  req_json :: "dict option"
  req_params :: "dict option"

record http_response =
  status_code :: int
  body_text :: string
  body_json :: "pyexn + json"

datatype http_outcome = Responds http_response | Raises pyexn

type_synonym network = "http_request \<Rightarrow> http_outcome"

text \<open>
  The state records every invocation of the Backend Client with its arguments, and every
  request that left for the network, in order.
\<close>

record backend_call =
  call_method :: string
  call_endpoint :: string
  call_data :: "dict option"
  call_params :: "dict option"

record world =
  calls :: "backend_call list"
  sent :: "http_request list"

text \<open>
  Lines 42 to 53: the method selects the client call; \<open>GET\<close> and \<open>DELETE\<close> pass no body.
  Any other method sends nothing.
\<close>

definition client_request ::
  "string \<Rightarrow> string \<Rightarrow> (string \<times> string) list \<Rightarrow> dict option \<Rightarrow> dict option \<Rightarrow> http_request option" where
  "client_request method url headers data params =
     (if method = ''GET'' then
        Some \<lparr>req_method = ''GET'', req_url = url, req_headers = headers, req_json = None, req_params = params\<rparr>
      else if method = ''POST'' then
        Some \<lparr>req_method = ''POST'', req_url = url, req_headers = headers, req_json = data, req_params = params\<rparr>
      else if method = ''PATCH'' then
        Some \<lparr>req_method = ''PATCH'', req_url = url, req_headers = headers, req_json = data, req_params = params\<rparr>
      else if method = ''DELETE'' then
        Some \<lparr>req_method = ''DELETE'', req_url = url, req_headers = headers, req_json = None, req_params = params\<rparr>
      else if method = ''PUT'' then
        Some \<lparr>req_method = ''PUT'', req_url = url, req_headers = headers, req_json = data, req_params = params\<rparr>
      else None)"

text \<open>
  Lines 36 to 38: with a team identifier configured, \<open>params\<close> becomes \<open>params or {}\<close>
  and gets the key \<open>teamId\<close>; without one it is passed on as it came.
\<close>

definition team_params :: "config \<Rightarrow> dict option \<Rightarrow> dict option" where
  "team_params cfg params =
     (if VERCEL_TEAM_ID cfg \<noteq> [] then
        Some (AList.update ''teamId'' (JStr (VERCEL_TEAM_ID cfg))
                (case params of None \<Rightarrow> [] | Some p \<Rightarrow> if p \<noteq> [] then p else []))
      else params)"

text \<open>
  Lines 55 to 62: what is returned for the outcome of the client call. Everything the
  \<open>try\<close> block raises, the client's exception as well as the one \<open>response.json()\<close>
  raises on a body that is not JSON, ends in the \<open>except\<close> branch.
\<close>

definition response_result :: "http_outcome \<Rightarrow> json" where
  "response_result outcome =
     (case outcome of
        Raises e \<Rightarrow> JObj [(''error'', JStr (exn_str e))]
      | Responds response \<Rightarrow>
          if status_code response \<in> set [200, 201, 202, 204] then
            if status_code response = 204 then JObj [(''success'', JBool True)]
            else (case body_json response of
                    Inl e \<Rightarrow> JObj [(''error'', JStr (exn_str e))]
                  | Inr v \<Rightarrow> v)
          else JObj [(''error'', JStr (''HTTP '' @ str_int (status_code response))),
                     (''details'', JStr (take 500 (body_text response)))])"

definition vercel_request ::
  "config \<Rightarrow> network \<Rightarrow> string \<Rightarrow> string \<Rightarrow> dict option \<Rightarrow> dict option \<Rightarrow> world \<Rightarrow> json \<times> world" where
  "vercel_request cfg http method endpoint data params s =
     (let s1 = s\<lparr>calls := calls s @ [\<lparr>call_method = method, call_endpoint = endpoint,
                                         call_data = data, call_params = params\<rparr>]\<rparr>;
          headers = [(''Authorization'', ''Bearer '' @ VERCEL_TOKEN cfg),
                     (''Content-Type'', ''application/json'')];
          url = BASE_URL @ endpoint;
          params = team_params cfg params
      in case client_request method url headers data params of
           None \<Rightarrow> (JObj [(''error'', JStr (''Unknown method: '' @ method))], s1)
         | Some req \<Rightarrow> (response_result (http req), s1\<lparr>sent := sent s1 @ [req]\<rparr>))"

section \<open>The Tool Dispatcher: \<open>handle_tool_call\<close>\<close>

text \<open>
  \<open>assigned\<close> is the end of a branch that ran \<open>result = vercel_request(...)\<close>: the
  branch did not raise and \<open>result\<close> is bound.
\<close>

definition assigned :: "json \<times> world \<Rightarrow> (pyexn + json option) \<times> world" where
  "assigned rs = (Inr (Some (fst rs)), snd rs)"

text \<open>
  \<open>data["k"] = args["k"]\<close> under \<open>if args.get("k"):\<close>, as \<open>create_project\<close> and
  \<open>list_deployments\<close> do for their optional fields (the target key may differ from the
  argument's).
\<close>

definition set_if_given :: "json \<Rightarrow> string \<Rightarrow> string \<Rightarrow> dict \<Rightarrow> pyexn + dict" where
  "set_if_given args key target d =
     (case py_get args key JNull of
        Inl e \<Rightarrow> Inl e
      | Inr given \<Rightarrow>
          if truthy given then
            (case py_getitem args key of Inl e \<Rightarrow> Inl e | Inr v \<Rightarrow> Inr (AList.update target v d))
          else Inr d)"

text \<open>
  Lines 239 to 304, the \<open>if\<close>/\<open>elif\<close> chain inside the \<open>try\<close>. The result is \<open>Inl e\<close>
  when shaping the arguments raised \<open>e\<close>, \<open>Inr (Some result)\<close> when a branch bound
  \<open>result\<close>, and \<open>Inr None\<close> when no branch matched and the \<open>else\<close> returns. Python
  evaluates the arguments of a call from left to right, so the endpoint's f-string is
  evaluated before a \<open>data=\<close> argument, and a dict display from its first item.
\<close>

definition dispatch :: "config \<Rightarrow> network \<Rightarrow> json \<Rightarrow> json \<Rightarrow> world \<Rightarrow> (pyexn + json option) \<times> world" where
  "dispatch cfg http name args s =
     (if name = JStr ''list_projects'' then
        on (py_get args ''limit'' (JInt 20)) (\<lambda>limit s.
          assigned (vercel_request cfg http ''GET'' ''/v9/projects'' None (Some [(''limit'', limit)]) s)) s
      else if name = JStr ''get_project'' then
        on (py_getitem args ''project_id'') (\<lambda>project_id s.
          assigned (vercel_request cfg http ''GET'' (''/v9/projects/'' @ py_str project_id) None None s)) s
      else if name = JStr ''create_project'' then
        on (py_getitem args ''name'') (\<lambda>nm.
        on (set_if_given args ''framework'' ''framework'' [(''name'', nm)]) (\<lambda>data.
        on (set_if_given args ''git_repository'' ''gitRepository'' data) (\<lambda>data s.
          assigned (vercel_request cfg http ''POST'' ''/v10/projects'' (Some data) None s)))) s
      else if name = JStr ''delete_project'' then
        on (py_getitem args ''project_id'') (\<lambda>project_id s.
          assigned (vercel_request cfg http ''DELETE'' (''/v9/projects/'' @ py_str project_id) None None s)) s
      else if name = JStr ''list_deployments'' then
        on (py_get args ''limit'' (JInt 10)) (\<lambda>limit.
        on (set_if_given args ''project_id'' ''projectId'' [(''limit'', limit)]) (\<lambda>params.
        on (set_if_given args ''state'' ''state'' params) (\<lambda>params s.
          assigned (vercel_request cfg http ''GET'' ''/v6/deployments'' None (Some params) s)))) s
      else if name = JStr ''get_deployment'' then
        on (py_getitem args ''deployment_id'') (\<lambda>deployment_id s.
          assigned (vercel_request cfg http ''GET'' (''/v13/deployments/'' @ py_str deployment_id) None None s)) s
      else if name = JStr ''cancel_deployment'' then
        on (py_getitem args ''deployment_id'') (\<lambda>deployment_id s.
          assigned (vercel_request cfg http ''PATCH''
                      (''/v12/deployments/'' @ py_str deployment_id @ ''/cancel'') None None s)) s
      else if name = JStr ''list_domains'' then
        on (py_get args ''limit'' (JInt 20)) (\<lambda>limit s.
          assigned (vercel_request cfg http ''GET'' ''/v5/domains'' None (Some [(''limit'', limit)]) s)) s
      else if name = JStr ''add_domain'' then
        on (py_getitem args ''project_id'') (\<lambda>project_id.
        on (py_getitem args ''domain'') (\<lambda>domain s.
          assigned (vercel_request cfg http ''POST'' (''/v10/projects/'' @ py_str project_id @ ''/domains'')
                      (Some [(''name'', domain)]) None s))) s
      else if name = JStr ''remove_domain'' then
        on (py_getitem args ''project_id'') (\<lambda>project_id.
        on (py_getitem args ''domain'') (\<lambda>domain s.
          assigned (vercel_request cfg http ''DELETE''
                      (''/v9/projects/'' @ py_str project_id @ ''/domains/'' @ py_str domain) None None s))) s
      else if name = JStr ''list_env_vars'' then
        on (py_getitem args ''project_id'') (\<lambda>project_id s.
          assigned (vercel_request cfg http ''GET'' (''/v9/projects/'' @ py_str project_id @ ''/env'') None None s)) s
      else if name = JStr ''create_env_var'' then
        on (py_getitem args ''key'') (\<lambda>key.
        on (py_getitem args ''value'') (\<lambda>val.
        on (py_get args ''target'' (JArr [JStr ''production'', JStr ''preview'', JStr ''development''])) (\<lambda>target.
        on (py_getitem args ''project_id'') (\<lambda>project_id s.
          assigned (vercel_request cfg http ''POST'' (''/v10/projects/'' @ py_str project_id @ ''/env'')
                      (Some [(''key'', key), (''value'', val), (''target'', target),
                             (''type'', JStr ''encrypted'')]) None s))))) s
      else if name = JStr ''delete_env_var'' then
        on (py_getitem args ''project_id'') (\<lambda>project_id.
        on (py_getitem args ''env_id'') (\<lambda>env_id s.
          assigned (vercel_request cfg http ''DELETE''
                      (''/v9/projects/'' @ py_str project_id @ ''/env/'' @ py_str env_id) None None s))) s
      else if name = JStr ''redeploy'' then
        on (py_getitem args ''deployment_id'') (\<lambda>deployment_id s.
          assigned (vercel_request cfg http ''POST'' ''/v13/deployments''
                      (Some [(''deploymentId'', deployment_id), (''target'', JStr ''production'')]) None s)) s
      else if name = JStr ''get_user'' then
        assigned (vercel_request cfg http ''GET'' ''/v2/user'' None None s)
      else (Inr None, s))"

text \<open>
  Lines 304, 306 and 310: the three values \<open>handle_tool_call\<close> returns. Only two of them
  carry the key \<open>isError\<close>.
\<close>

definition text_content :: "string \<Rightarrow> json" where
  "text_content t = JArr [JObj [(''type'', JStr ''text''), (''text'', JStr t)]]"

definition handle_tool_call :: "config \<Rightarrow> network \<Rightarrow> json \<Rightarrow> json \<Rightarrow> world \<Rightarrow> json \<times> world" where
  "handle_tool_call cfg http name args s =
     (case dispatch cfg http name args s of
        (Inr None, s') \<Rightarrow>
          (JObj [(''content'', text_content (''Unknown tool: '' @ py_str name)), (''isError'', JBool True)], s')
      | (Inr (Some result), s') \<Rightarrow>
          (JObj [(''content'', text_content (json_dumps result))], s')
      | (Inl e, s') \<Rightarrow>
          (JObj [(''content'', text_content (''Error: '' @ exn_str e)), (''isError'', JBool True)], s'))"

section \<open>The Tool Registry: \<open>TOOLS\<close>\<close>

definition TOOLS :: "json list" where
  "TOOLS =
     [JObj
        [(''name'', JStr ''list_projects''),
         (''description'', JStr ''List all Vercel projects''),
         (''inputSchema'', JObj
          [(''type'', JStr ''object''),
           (''properties'', JObj
            [(''limit'', JObj
              [(''type'', JStr ''integer''),
               (''default'', JInt 20),
               (''description'', JStr ''Max projects to return'')])])])],
      JObj
        [(''name'', JStr ''get_project''),
         (''description'', JStr ''Get details of a specific project''),
         (''inputSchema'', JObj
          [(''type'', JStr ''object''),
           (''properties'', JObj
            [(''project_id'', JObj [(''type'', JStr ''string''), (''description'', JStr ''Project ID or name'')])]),
           (''required'', JArr [JStr ''project_id''])])],
      JObj
        [(''name'', JStr ''create_project''),
         (''description'', JStr ''Create a new Vercel project''),
         (''inputSchema'', JObj
          [(''type'', JStr ''object''),
           (''properties'', JObj
            [(''name'', JObj [(''type'', JStr ''string''), (''description'', JStr ''Project name'')]),
             (''framework'', JObj
              [(''type'', JStr ''string''),
               (''description'', JStr ''Framework preset (nextjs, react, vue, etc.)'')]),
             (''git_repository'', JObj
              [(''type'', JStr ''object''),
               (''description'', JStr ''Git repository config {type, repo}'')])]),
           (''required'', JArr [JStr ''name''])])],
      JObj
        [(''name'', JStr ''delete_project''),
         (''description'', JStr ''Delete a Vercel project''),
         (''inputSchema'', JObj
          [(''type'', JStr ''object''),
           (''properties'', JObj
            [(''project_id'', JObj [(''type'', JStr ''string''), (''description'', JStr ''Project ID or name'')])]),
           (''required'', JArr [JStr ''project_id''])])],
      JObj
        [(''name'', JStr ''list_deployments''),
         (''description'', JStr ''List deployments for a project''),
         (''inputSchema'', JObj
          [(''type'', JStr ''object''),
           (''properties'', JObj
            [(''project_id'', JObj [(''type'', JStr ''string''), (''description'', JStr ''Project ID or name'')]),
             (''limit'', JObj [(''type'', JStr ''integer''), (''default'', JInt 10)]),
             (''state'', JObj
              [(''type'', JStr ''string''),
               (''enum'', JArr [JStr ''BUILDING'', JStr ''ERROR'', JStr ''INITIALIZING'', JStr ''QUEUED'', JStr ''READY'', JStr ''CANCELED''])])])])],
      JObj
        [(''name'', JStr ''get_deployment''),
         (''description'', JStr ''Get details of a specific deployment''),
         (''inputSchema'', JObj
          [(''type'', JStr ''object''),
           (''properties'', JObj
            [(''deployment_id'', JObj
              [(''type'', JStr ''string''),
               (''description'', JStr ''Deployment ID or URL'')])]),
           (''required'', JArr [JStr ''deployment_id''])])],
      JObj
        [(''name'', JStr ''cancel_deployment''),
         (''description'', JStr ''Cancel a running deployment''),
         (''inputSchema'', JObj
          [(''type'', JStr ''object''),
           (''properties'', JObj
            [(''deployment_id'', JObj [(''type'', JStr ''string''), (''description'', JStr ''Deployment ID'')])]),
           (''required'', JArr [JStr ''deployment_id''])])],
      JObj
        [(''name'', JStr ''list_domains''),
         (''description'', JStr ''List all domains''),
         (''inputSchema'', JObj
          [(''type'', JStr ''object''),
           (''properties'', JObj [(''limit'', JObj [(''type'', JStr ''integer''), (''default'', JInt 20)])])])],
      JObj
        [(''name'', JStr ''add_domain''),
         (''description'', JStr ''Add a domain to a project''),
         (''inputSchema'', JObj
          [(''type'', JStr ''object''),
           (''properties'', JObj
            [(''project_id'', JObj [(''type'', JStr ''string''), (''description'', JStr ''Project ID'')]),
             (''domain'', JObj [(''type'', JStr ''string''), (''description'', JStr ''Domain name to add'')])]),
           (''required'', JArr [JStr ''project_id'', JStr ''domain''])])],
      JObj
        [(''name'', JStr ''remove_domain''),
         (''description'', JStr ''Remove a domain from a project''),
         (''inputSchema'', JObj
          [(''type'', JStr ''object''),
           (''properties'', JObj
            [(''project_id'', JObj [(''type'', JStr ''string''), (''description'', JStr ''Project ID'')]),
             (''domain'', JObj
              [(''type'', JStr ''string''),
               (''description'', JStr ''Domain name to remove'')])]),
           (''required'', JArr [JStr ''project_id'', JStr ''domain''])])],
      JObj
        [(''name'', JStr ''list_env_vars''),
         (''description'', JStr ''List environment variables for a project''),
         (''inputSchema'', JObj
          [(''type'', JStr ''object''),
           (''properties'', JObj
            [(''project_id'', JObj [(''type'', JStr ''string''), (''description'', JStr ''Project ID'')])]),
           (''required'', JArr [JStr ''project_id''])])],
      JObj
        [(''name'', JStr ''create_env_var''),
         (''description'', JStr ''Create an environment variable''),
         (''inputSchema'', JObj
          [(''type'', JStr ''object''),
           (''properties'', JObj
            [(''project_id'', JObj [(''type'', JStr ''string''), (''description'', JStr ''Project ID'')]),
             (''key'', JObj [(''type'', JStr ''string''), (''description'', JStr ''Variable name'')]),
             (''value'', JObj [(''type'', JStr ''string''), (''description'', JStr ''Variable value'')]),
             (''target'', JObj
              [(''type'', JStr ''array''),
               (''items'', JObj [(''type'', JStr ''string'')]),
               (''description'', JStr ''Targets: production, preview, development'')])]),
           (''required'', JArr [JStr ''project_id'', JStr ''key'', JStr ''value''])])],
      JObj
        [(''name'', JStr ''delete_env_var''),
         (''description'', JStr ''Delete an environment variable''),
         (''inputSchema'', JObj
          [(''type'', JStr ''object''),
           (''properties'', JObj
            [(''project_id'', JObj [(''type'', JStr ''string''), (''description'', JStr ''Project ID'')]),
             (''env_id'', JObj
              [(''type'', JStr ''string''),
               (''description'', JStr ''Environment variable ID'')])]),
           (''required'', JArr [JStr ''project_id'', JStr ''env_id''])])],
      JObj
        [(''name'', JStr ''redeploy''),
         (''description'', JStr ''Trigger a redeployment of the latest deployment''),
         (''inputSchema'', JObj
          [(''type'', JStr ''object''),
           (''properties'', JObj
            [(''deployment_id'', JObj
              [(''type'', JStr ''string''),
               (''description'', JStr ''Deployment ID to redeploy'')])]),
           (''required'', JArr [JStr ''deployment_id''])])],
      JObj
        [(''name'', JStr ''get_user''),
         (''description'', JStr ''Get current authenticated user info''),
         (''inputSchema'', JObj [(''type'', JStr ''object''), (''properties'', JObj [])])]]"

text \<open>The names the registry declares, in its order.\<close>

definition registry_names :: "string list" where
  "registry_names =
     concat (map (\<lambda>tool. case py_getitem tool ''name'' of Inr (JStr n) \<Rightarrow> [n] | _ \<Rightarrow> []) TOOLS)"

section \<open>The MCP Protocol Adapter: \<open>process_mcp_message\<close> and \<open>mcp_handler\<close>\<close>

text \<open>
  \<open>process_mcp_message\<close> has no \<open>try\<close> of its own: what \<open>data.get\<close> or \<open>params.get\<close>
  raises on a value that is not a dict leaves the function as an exception.
\<close>

definition process_mcp_message :: "config \<Rightarrow> network \<Rightarrow> json \<Rightarrow> world \<Rightarrow> (pyexn + json) \<times> world" where
  "process_mcp_message cfg http data s =
     on (py_get data ''method'' (JStr [])) (\<lambda>method.
     on (py_get data ''params'' (JObj [])) (\<lambda>params.
     on (py_get data ''id'' (JInt 1)) (\<lambda>request_id s.
       if method = JStr ''initialize'' then
         (Inr (JObj [(''jsonrpc'', JStr ''2.0''), (''id'', request_id),
                     (''result'', JObj
                        [(''protocolVersion'', JStr ''2024-11-05''),
                         (''capabilities'', JObj [(''tools'', JObj [(''listChanged'', JBool True)])]),
                         (''serverInfo'', JObj [(''name'', JStr ''vercel-mcp''),
                                                (''version'', JStr ''1.0.0'')])])]), s)
       else if method = JStr ''tools/list'' then
         (Inr (JObj [(''jsonrpc'', JStr ''2.0''), (''id'', request_id),
                     (''result'', JObj [(''tools'', JArr TOOLS)])]), s)
       else if method = JStr ''tools/call'' then
         on (py_get params ''name'' (JStr [])) (\<lambda>nm.
         on (py_get params ''arguments'' (JObj [])) (\<lambda>arguments s.
           case handle_tool_call cfg http nm arguments s of
             (result, s') \<Rightarrow>
               (Inr (JObj [(''jsonrpc'', JStr ''2.0''), (''id'', request_id), (''result'', result)]), s'))) s
       else if method = JStr ''notifications/initialized'' then
         (Inr (JObj [(''jsonrpc'', JStr ''2.0''), (''id'', request_id), (''result'', JObj [])]), s)
       else
         (Inr (JObj [(''jsonrpc'', JStr ''2.0''), (''id'', request_id),
                     (''error'', JObj [(''code'', JInt (- 32601)),
                                       (''message'', JStr (''Method not found: '' @ py_str method))])]), s)))) s"

text \<open>
  \<open>mcp_handler\<close> is the route for \<open>POST /mcp\<close>. \<open>request.get_json()\<close> belongs to the web
  framework: it returns the decoded body or raises, and its outcome is the handler's
  input. The handler returns the response document and the HTTP status. Lines 350 to
  354 are the \<open>try\<close> block, lines 355 to 357 the \<open>except\<close> branch.
\<close>

definition mcp_handler_try ::
  "config \<Rightarrow> network \<Rightarrow> pyexn + json \<Rightarrow> world \<Rightarrow> (pyexn + json \<times> int) \<times> world" where
  "mcp_handler_try cfg http get_json s =
     on get_json (\<lambda>data s.
       if \<not> truthy data then
         (Inr (JObj [(''jsonrpc'', JStr ''2.0''), (''id'', JNull),
                     (''error'', JObj [(''code'', JInt (- 32700)), (''message'', JStr ''Parse error'')])],
               400), s)
       else
         (case process_mcp_message cfg http data s of
            (Inl e, s') \<Rightarrow> (Inl e, s')
          | (Inr response, s') \<Rightarrow> (Inr (response, 200), s'))) s"

definition mcp_handler :: "config \<Rightarrow> network \<Rightarrow> pyexn + json \<Rightarrow> world \<Rightarrow> (json \<times> int) \<times> world" where
  "mcp_handler cfg http get_json s =
     (case mcp_handler_try cfg http get_json s of
        (Inr reply, s') \<Rightarrow> (reply, s')
      | (Inl e, s') \<Rightarrow>
          ((JObj [(''jsonrpc'', JStr ''2.0''), (''id'', JInt 1),
                  (''error'', JObj [(''code'', JInt (- 32603)), (''message'', JStr (exn_str e))])],
            500), s'))"

section \<open>Sample inputs\<close>

text \<open>
  One configuration with a team identifier and one without, the state before any call,
  and five networks: one that is unreachable and four that answer every request with
  one fixed response.
\<close>

definition sample_config :: config where
  "sample_config = \<lparr>VERCEL_TOKEN = ''secret'', VERCEL_TEAM_ID = ''team_42''\<rparr>"

definition no_team_config :: config where
  "no_team_config = \<lparr>VERCEL_TOKEN = ''secret'', VERCEL_TEAM_ID = []\<rparr>"

definition idle :: world where
  "idle = \<lparr>calls = [], sent = []\<rparr>"

definition net_down :: network where
  "net_down req = Raises (Exn ''timed out'')"

definition net_404 :: network where
  "net_404 req =
     Responds \<lparr>status_code = 404, body_text = ''Not Found'',
               body_json = Inl (Exn ''Expecting value: line 1 column 1 (char 0)'')\<rparr>"

definition net_200 :: network where
  "net_200 req =
     Responds \<lparr>status_code = 200, body_text = ''{}'', body_json = Inr (JObj [])\<rparr>"

definition net_203 :: network where
  "net_203 req =
     Responds \<lparr>status_code = 203, body_text = ''{}'', body_json = Inr (JObj [])\<rparr>"

definition net_204 :: network where
  "net_204 req =
     Responds \<lparr>status_code = 204, body_text = [], body_json = Inl (Exn ''Expecting value: line 1 column 1 (char 0)'')\<rparr>"

text \<open>Arguments that carry every key some tool requires.\<close>

definition full_args :: json where
  "full_args =
     JObj [(''project_id'', JStr ''prj_1''), (''name'', JStr ''site''), (''deployment_id'', JStr ''dpl_1''),
           (''domain'', JStr ''example.com''), (''key'', JStr ''API_KEY''), (''value'', JStr ''s3cr3t''),
           (''env_id'', JStr ''env_1'')]"

section \<open>Basic facts\<close>

lemma registry_names_eq:
  "registry_names =
     [''list_projects'', ''get_project'', ''create_project'', ''delete_project'',
      ''list_deployments'', ''get_deployment'', ''cancel_deployment'', ''list_domains'',
      ''add_domain'', ''remove_domain'', ''list_env_vars'', ''create_env_var'',
      ''delete_env_var'', ''redeploy'', ''get_user'']"
  by (simp add: registry_names_def TOOLS_def py_getitem_def)

lemma on_Inl: "on (Inl e) rest s = (Inl e, s)"
  by (simp add: on_def)

lemma on_Inr: "on (Inr v) rest s = rest v s"
  by (simp add: on_def)

lemma py_get_dict:
  "py_get (JObj kvs) key dflt = Inr (case map_of kvs key of None \<Rightarrow> dflt | Some v \<Rightarrow> v)"
  by (simp add: py_get_def split: option.splits)

text \<open>
  The branches of the dispatcher are the names of the registry: any other name falls
  through to the \<open>else\<close>.
\<close>

lemma dispatch_unmatched:
  "name \<notin> JStr ` set registry_names \<Longrightarrow> dispatch cfg http name args s = (Inr None, s)"
  by (simp add: registry_names_eq dispatch_def)

text \<open>
  The three ways the \<open>if\<close>/\<open>elif\<close> chain ends. It raises before anything is sent; or no
  branch matches and nothing is sent; or a branch calls the Backend Client once, one
  request leaves, and \<open>result\<close> is what the client made of the outcome.
\<close>

lemma dispatch_cases:
  assumes "dispatch cfg http name args s = (out, s')"
  shows "(\<exists>e. out = Inl e \<and> s' = s \<and> name \<in> JStr ` set registry_names)
       \<or> (out = Inr None \<and> s' = s \<and> name \<notin> JStr ` set registry_names)
       \<or> (\<exists>c req. out = Inr (Some (response_result (http req)))
             \<and> s' = s\<lparr>calls := calls s @ [c], sent := sent s @ [req]\<rparr>
             \<and> name \<in> JStr ` set registry_names)"
  using assms
  apply (simp add: registry_names_eq dispatch_def on_def assigned_def vercel_request_def
      client_request_def Let_def split: if_splits sum.splits)
  apply auto
  done

lemma dispatch_outcome:
  obtains (raised) e where "dispatch cfg http name args s = (Inl e, s)"
      and "name \<in> JStr ` set registry_names"
  | (unknown) "dispatch cfg http name args s = (Inr None, s)"
      and "name \<notin> JStr ` set registry_names"
  | (called) c req where
      "dispatch cfg http name args s =
         (Inr (Some (response_result (http req))), s\<lparr>calls := calls s @ [c], sent := sent s @ [req]\<rparr>)"
      and "name \<in> JStr ` set registry_names"
  using dispatch_cases [of cfg http name args s "fst (dispatch cfg http name args s)"
      "snd (dispatch cfg http name args s)"]
  by (cases "dispatch cfg http name args s") auto

lemma handle_tool_call_unmatched:
  "name \<notin> JStr ` set registry_names \<Longrightarrow>
   handle_tool_call cfg http name args s =
     (JObj [(''content'', text_content (''Unknown tool: '' @ py_str name)), (''isError'', JBool True)], s)"
  by (simp add: handle_tool_call_def dispatch_unmatched)

lemma response_result_rejected:
  assumes "case outcome of Raises e \<Rightarrow> True | Responds r \<Rightarrow> status_code r \<notin> {200, 201, 202, 204}"
  shows "response_result outcome =
           (case outcome of
              Raises e \<Rightarrow> JObj [(''error'', JStr (exn_str e))]
            | Responds r \<Rightarrow> JObj [(''error'', JStr (''HTTP '' @ str_int (status_code r))),
                                   (''details'', JStr (take 500 (body_text r)))])"
  using assms by (cases outcome) (auto simp: response_result_def)

text \<open>
  A \<open>tools/call\<close> message whose \<open>params\<close> are a dict (or absent) hands
  \<open>params.get("name", "")\<close> and \<open>params.get("arguments", {})\<close> to the dispatcher and wraps
  what comes back.
\<close>

lemma tools_call_routed:
  assumes "map_of msg ''method'' = Some (JStr ''tools/call'')"
    and "py_get (JObj msg) ''params'' (JObj []) = Inr (JObj ps)"
  shows "process_mcp_message cfg http (JObj msg) s =
     (Inr (JObj [(''jsonrpc'', JStr ''2.0''),
                 (''id'', case map_of msg ''id'' of None \<Rightarrow> JInt 1 | Some i \<Rightarrow> i),
                 (''result'', fst (handle_tool_call cfg http
                      (case map_of ps ''name'' of None \<Rightarrow> JStr [] | Some n \<Rightarrow> n)
                      (case map_of ps ''arguments'' of None \<Rightarrow> JObj [] | Some a \<Rightarrow> a) s))]),
      snd (handle_tool_call cfg http
                      (case map_of ps ''name'' of None \<Rightarrow> JStr [] | Some n \<Rightarrow> n)
                      (case map_of ps ''arguments'' of None \<Rightarrow> JObj [] | Some a \<Rightarrow> a) s))"
  using assms
  by (simp add: process_mcp_message_def on_Inr py_get_dict split: prod.splits)

text \<open>
  With one of the five methods the Backend Client sends exactly one request; with any
  other it sends none and reports the method.
\<close>

lemma vercel_request_sends:
  assumes "method \<in> set [''GET'', ''POST'', ''PATCH'', ''DELETE'', ''PUT'']"
  shows "\<exists>req. sent (snd (vercel_request cfg http method endpoint data params s)) = sent s @ [req]"
  using assms by (auto simp: vercel_request_def client_request_def Let_def)

lemma vercel_request_unknown_method:
  assumes "method \<notin> set [''GET'', ''POST'', ''PATCH'', ''DELETE'', ''PUT'']"
  shows "fst (vercel_request cfg http method endpoint data params s) =
           JObj [(''error'', JStr (''Unknown method: '' @ method))]"
    and "sent (snd (vercel_request cfg http method endpoint data params s)) = sent s"
  using assms by (auto simp: vercel_request_def client_request_def Let_def)

text \<open>
  The request that left is the one the client call builds from the arguments, and the
  value returned is what lines 55 to 62 make of its outcome.
\<close>

lemma vercel_request_sent:
  assumes "sent (snd (vercel_request cfg http method endpoint data params s)) = sent s @ [req]"
  shows "client_request method (BASE_URL @ endpoint)
            [(''Authorization'', ''Bearer '' @ VERCEL_TOKEN cfg), (''Content-Type'', ''application/json'')]
            data (team_params cfg params) = Some req"
    and "fst (vercel_request cfg http method endpoint data params s) = response_result (http req)"
  using assms by (auto simp: vercel_request_def Let_def split: option.splits)

text \<open>
  Given arguments with every required key, each tool of the registry invokes the Backend
  Client once and one request leaves.
\<close>

lemma every_tool_calls_backend_once:
  assumes "n \<in> set registry_names"
  shows "length (calls (snd (handle_tool_call cfg http (JStr n) full_args s))) = Suc (length (calls s))
       \<and> length (sent (snd (handle_tool_call cfg http (JStr n) full_args s))) = Suc (length (sent s))"
  using assms
  by (auto simp: registry_names_eq handle_tool_call_def dispatch_def on_def assigned_def
      vercel_request_def client_request_def Let_def full_args_def py_getitem_def py_get_def
      set_if_given_def truthy_def)

text \<open>Every document that \<open>process_mcp_message\<close> returns carries the request's \<open>id\<close>, or 1.\<close>

lemma process_mcp_message_echoes_id:
  assumes "process_mcp_message cfg http (JObj msg) s = (Inr response, s')"
  shows "py_getitem response ''id'' = Inr (case map_of msg ''id'' of None \<Rightarrow> JInt 1 | Some i \<Rightarrow> i)"
  using assms
  by (auto simp: process_mcp_message_def on_def py_get_dict py_getitem_def
      split: if_splits sum.splits prod.splits)

section \<open>The dispatcher's results\<close>

text \<open>
  Claim C1. For every tool the dispatcher matches: when the Backend Client was invoked
  and the request it sent came back as a failure (a status outside 200, 201, 202, 204, or
  an exception of the HTTP client), \<open>handle_tool_call\<close> returns a result whose only key
  is \<open>content\<close>, so \<open>isError\<close> is not set, and whose content is one text item holding
  \<open>json.dumps\<close> of the failure payload, a dict whose first key is \<open>error\<close>.
\<close>

theorem upstream_failure_rendered:
  assumes "sent (snd (handle_tool_call cfg http name args s)) = sent s @ [req]"
    and "case http req of Raises e \<Rightarrow> True | Responds r \<Rightarrow> status_code r \<notin> {200, 201, 202, 204}"
  shows "fst (handle_tool_call cfg http name args s) =
           JObj [(''content'', JArr [JObj [(''type'', JStr ''text''),
              (''text'', JStr (json_dumps
                 (case http req of
                    Raises e \<Rightarrow> JObj [(''error'', JStr (exn_str e))]
                  | Responds r \<Rightarrow> JObj [(''error'', JStr (''HTTP '' @ str_int (status_code r))),
                                         (''details'', JStr (take 500 (body_text r)))])))]])]"
proof (cases rule: dispatch_outcome [of cfg http name args s])
  case (raised e)
  with assms(1) show ?thesis by (simp add: handle_tool_call_def)
next
  case unknown
  with assms(1) show ?thesis by (simp add: handle_tool_call_def)
next
  case (called c req')
  with assms(1) have "req' = req" by (simp add: handle_tool_call_def)
  with called(1) show ?thesis
    by (simp add: handle_tool_call_def text_content_def response_result_rejected [OF assms(2)])
qed

text \<open>
  \<open>get_project\<close> against a backend that answers 404: the text is the indented JSON
  document with \<open>"error": "HTTP 404"\<close>.
\<close>

theorem upstream_failure_rendered_witness:
  \<open>fst (handle_tool_call sample_config net_404 (JStr ''get_project'')
          (JObj [(''project_id'', JStr ''prj_1'')]) idle) =
     JObj [(''content'', JArr [JObj [(''type'', JStr ''text''),
        (''text'', JStr (''{'' @ [NEWLINE] @ ''  "error": "HTTP 404",'' @ [NEWLINE]
                         @ ''  "details": "Not Found"'' @ [NEWLINE] @ ''}''))]])]\<close>
proof -
  let ?req = "\<lparr>req_method = ''GET'', req_url = ''https://api.vercel.com/v9/projects/prj_1'',
               req_headers = [(''Authorization'', ''Bearer secret''), (''Content-Type'', ''application/json'')],
               req_json = None, req_params = Some [(''teamId'', JStr ''team_42'')]\<rparr>"
  have h1: "sent (snd (handle_tool_call sample_config net_404 (JStr ''get_project'')
                         (JObj [(''project_id'', JStr ''prj_1'')]) idle))
            = sent idle @ [?req]"
    by code_simp
  have h2: "case net_404 ?req of Raises e \<Rightarrow> True | Responds r \<Rightarrow> status_code r \<notin> {200, 201, 202, 204}"
    by (simp add: net_404_def)
  show ?thesis
    using upstream_failure_rendered [OF h1 h2] by code_simp
qed

text \<open>
  Claim C2, as stated, fails in its last part. The exception path is not the only one
  that sets \<open>isError\<close>: for a name no branch matches the \<open>try\<close> block raises nothing
  (the chain ends in its \<open>else\<close>), and the result has \<open>isError\<close> true.
\<close>

theorem isError_without_exception:
  "\<not> (py_getitem (fst (handle_tool_call sample_config net_down (JStr ''unknown_tool'') (JObj []) idle)) ''isError''
         = Inr (JBool True)
       \<longrightarrow> isl (fst (dispatch sample_config net_down (JStr ''unknown_tool'') (JObj []) idle)))"
  by code_simp

text \<open>
  Claim C2, amended. An exception raised while the arguments are shaped (a required key
  absent, for one) is caught and rendered as the content \<open>Error: <message>\<close> with
  \<open>isError\<close> true, and the state is as it was: the Backend Client is not invoked.
  \<open>isError\<close> is true on exactly two paths, this one and the one for a name outside the
  registry.
\<close>

theorem shaping_fault_reported:
  "(fst (dispatch cfg http name args s) = Inl e \<longrightarrow>
      handle_tool_call cfg http name args s =
        (JObj [(''content'', JArr [JObj [(''type'', JStr ''text''), (''text'', JStr (''Error: '' @ exn_str e))]]),
               (''isError'', JBool True)], s))
   \<and> (py_getitem (fst (handle_tool_call cfg http name args s)) ''isError'' = Inr (JBool True)
        \<longleftrightarrow> isl (fst (dispatch cfg http name args s)) \<or> name \<notin> JStr ` set registry_names)"
proof (cases rule: dispatch_outcome [of cfg http name args s])
  case (raised e')
  then show ?thesis
    by (simp add: handle_tool_call_def text_content_def py_getitem_def)
next
  case unknown
  then show ?thesis
    by (simp add: handle_tool_call_def text_content_def py_getitem_def)
next
  case (called c req)
  then show ?thesis
    by (simp add: handle_tool_call_def text_content_def py_getitem_def)
qed

text \<open>\<open>get_project\<close> with no arguments: the message is the \<open>repr\<close> of the missing key.\<close>

theorem shaping_fault_reported_witness:
  "handle_tool_call sample_config net_200 (JStr ''get_project'') (JObj []) idle =
     (JObj [(''content'', JArr [JObj [(''type'', JStr ''text''),
                                      (''text'', JStr (''Error: '' @ [QUOTE] @ ''project_id'' @ [QUOTE]))]]),
            (''isError'', JBool True)], idle)
   \<and> py_getitem (fst (handle_tool_call sample_config net_200 (JStr ''get_project'') (JObj []) idle)) ''isError''
       = Inr (JBool True)"
proof -
  have h: "fst (dispatch sample_config net_200 (JStr ''get_project'') (JObj []) idle) = Inl (KeyError ''project_id'')"
    by code_simp
  have e: "exn_str (KeyError ''project_id'') = [QUOTE] @ ''project_id'' @ [QUOTE]"
    by code_simp
  show ?thesis
    using shaping_fault_reported [of sample_config net_200 "JStr ''get_project''" "JObj []" idle "KeyError ''project_id''"] h e
    by (simp add: py_getitem_def)
qed

text \<open>
  Claim C3. For every name that is not in the tool registry, \<open>handle_tool_call\<close> returns
  the content \<open>Unknown tool: <name>\<close> with \<open>isError\<close> true and leaves the state as it
  was (the Backend Client is not invoked, nothing is sent). A \<open>tools/call\<close> message for
  such a name is answered with status 200 by a document with the keys \<open>jsonrpc\<close>, \<open>id\<close>
  and \<open>result\<close>: a JSON-RPC result, not a JSON-RPC error.
\<close>

theorem unknown_tool_reported:
  assumes "n \<notin> set registry_names"
    and "map_of msg ''method'' = Some (JStr ''tools/call'')"
    and "map_of msg ''params'' = Some (JObj ps)"
    and "map_of ps ''name'' = Some (JStr n)"
  shows "handle_tool_call cfg http (JStr n) args s =
           (JObj [(''content'', JArr [JObj [(''type'', JStr ''text''), (''text'', JStr (''Unknown tool: '' @ n))]]),
                  (''isError'', JBool True)], s)
       \<and> mcp_handler cfg http (Inr (JObj msg)) s =
           ((JObj [(''jsonrpc'', JStr ''2.0''),
                   (''id'', case map_of msg ''id'' of None \<Rightarrow> JInt 1 | Some i \<Rightarrow> i),
                   (''result'', JObj [(''content'', JArr [JObj [(''type'', JStr ''text''),
                                                     (''text'', JStr (''Unknown tool: '' @ n))]]),
                                      (''isError'', JBool True)])], 200), s)"
proof -
  have unknown: "JStr n \<notin> JStr ` set registry_names"
    using assms(1) by auto
  have tool: "handle_tool_call cfg http (JStr n) a s =
      (JObj [(''content'', JArr [JObj [(''type'', JStr ''text''), (''text'', JStr (''Unknown tool: '' @ n))]]),
             (''isError'', JBool True)], s)" for a
    using handle_tool_call_unmatched [OF unknown, of cfg http a s]
    by (simp add: text_content_def py_str_def)
  have params: "py_get (JObj msg) ''params'' (JObj []) = Inr (JObj ps)"
    using assms(3) by (simp add: py_get_dict)
  have msg: "truthy (JObj msg)"
    using assms(2) by (auto simp: truthy_def)
  have "process_mcp_message cfg http (JObj msg) s =
     (Inr (JObj [(''jsonrpc'', JStr ''2.0''),
                 (''id'', case map_of msg ''id'' of None \<Rightarrow> JInt 1 | Some i \<Rightarrow> i),
                 (''result'', JObj [(''content'', JArr [JObj [(''type'', JStr ''text''),
                                                   (''text'', JStr (''Unknown tool: '' @ n))]]),
                                    (''isError'', JBool True)])]), s)"
    using tools_call_routed [OF assms(2) params, of cfg http s] assms(4)
    by (simp add: tool)
  then have "mcp_handler cfg http (Inr (JObj msg)) s =
           ((JObj [(''jsonrpc'', JStr ''2.0''),
                   (''id'', case map_of msg ''id'' of None \<Rightarrow> JInt 1 | Some i \<Rightarrow> i),
                   (''result'', JObj [(''content'', JArr [JObj [(''type'', JStr ''text''),
                                                     (''text'', JStr (''Unknown tool: '' @ n))]]),
                                      (''isError'', JBool True)])], 200), s)"
    using msg by (simp add: mcp_handler_def mcp_handler_try_def on_Inr)
  with tool show ?thesis by simp
qed

theorem unknown_tool_reported_witness:
  "handle_tool_call sample_config net_down (JStr ''unknown_tool'') (JObj []) idle =
     (JObj [(''content'', JArr [JObj [(''type'', JStr ''text''), (''text'', JStr ''Unknown tool: unknown_tool'')]]),
            (''isError'', JBool True)], idle)
   \<and> mcp_handler sample_config net_down
        (Inr (JObj [(''jsonrpc'', JStr ''2.0''), (''id'', JInt 5), (''method'', JStr ''tools/call''),
                    (''params'', JObj [(''name'', JStr ''unknown_tool''), (''arguments'', JObj [])])])) idle =
     ((JObj [(''jsonrpc'', JStr ''2.0''), (''id'', JInt 5),
             (''result'', JObj [(''content'', JArr [JObj [(''type'', JStr ''text''),
                                               (''text'', JStr ''Unknown tool: unknown_tool'')]]),
                                (''isError'', JBool True)])], 200), idle)"
proof -
  have h1: "''unknown_tool'' \<notin> set registry_names"
    by (simp add: registry_names_eq)
  have h2: "map_of [(''jsonrpc'', JStr ''2.0''), (''id'', JInt 5), (''method'', JStr ''tools/call''),
                    (''params'', JObj [(''name'', JStr ''unknown_tool''), (''arguments'', JObj [])])] ''method''
            = Some (JStr ''tools/call'')"
    by simp
  have h3: "map_of [(''jsonrpc'', JStr ''2.0''), (''id'', JInt 5), (''method'', JStr ''tools/call''),
                    (''params'', JObj [(''name'', JStr ''unknown_tool''), (''arguments'', JObj [])])] ''params''
            = Some (JObj [(''name'', JStr ''unknown_tool''), (''arguments'', JObj [])])"
    by simp
  have h4: "map_of [(''name'', JStr ''unknown_tool''), (''arguments'', JObj [])] ''name''
            = Some (JStr ''unknown_tool'')"
    by simp
  show ?thesis
    using unknown_tool_reported [OF h1 h2 h3 h4, of sample_config net_down "JObj []" idle] by simp
qed

text \<open>
  Claim C8. The request that \<open>create_env_var\<close> sends has the body \<open>key\<close>, \<open>value\<close>,
  \<open>target\<close>, \<open>type\<close>, where \<open>type\<close> is \<open>encrypted\<close> whatever the arguments hold, and
  \<open>target\<close> is the argument of that name, or the list \<open>production\<close>, \<open>preview\<close>,
  \<open>development\<close> when there is none.
\<close>

theorem create_env_var_body:
  assumes "sent (snd (handle_tool_call cfg http (JStr ''create_env_var'') args s)) = sent s @ [req]"
  shows "\<exists>a k v. args = JObj a \<and> map_of a ''key'' = Some k \<and> map_of a ''value'' = Some v
           \<and> req_json req =
               Some [(''key'', k), (''value'', v),
                     (''target'', case map_of a ''target'' of
                                    None \<Rightarrow> JArr [JStr ''production'', JStr ''preview'', JStr ''development'']
                                  | Some t \<Rightarrow> t),
                     (''type'', JStr ''encrypted'')]"
  using assms
  by (cases args)
     (auto simp: handle_tool_call_def dispatch_def on_def assigned_def vercel_request_def
        client_request_def Let_def py_getitem_def py_get_def split: option.splits)

theorem create_env_var_body_witness:
  "req_json (last (sent (snd (handle_tool_call sample_config net_200 (JStr ''create_env_var'')
        (JObj [(''project_id'', JStr ''prj_1''), (''key'', JStr ''API_KEY''), (''value'', JStr ''s3cr3t''),
               (''type'', JStr ''plain'')]) idle)))) =
     Some [(''key'', JStr ''API_KEY''), (''value'', JStr ''s3cr3t''),
           (''target'', JArr [JStr ''production'', JStr ''preview'', JStr ''development'']),
           (''type'', JStr ''encrypted'')]"
proof -
  let ?req = "\<lparr>req_method = ''POST'', req_url = ''https://api.vercel.com/v10/projects/prj_1/env'',
               req_headers = [(''Authorization'', ''Bearer secret''), (''Content-Type'', ''application/json'')],
               req_json = Some [(''key'', JStr ''API_KEY''), (''value'', JStr ''s3cr3t''),
                                (''target'', JArr [JStr ''production'', JStr ''preview'', JStr ''development'']),
                                (''type'', JStr ''encrypted'')],
               req_params = Some [(''teamId'', JStr ''team_42'')]\<rparr>"
  have h: "sent (snd (handle_tool_call sample_config net_200 (JStr ''create_env_var'')
        (JObj [(''project_id'', JStr ''prj_1''), (''key'', JStr ''API_KEY''), (''value'', JStr ''s3cr3t''),
               (''type'', JStr ''plain'')]) idle)) = sent idle @ [?req]"
    by code_simp
  show ?thesis
    using create_env_var_body [OF h] h by (simp add: idle_def)
qed

text \<open>
  Claim C9. \<open>handle_tool_call\<close> is total: whatever the name and the arguments, every
  exception of the \<open>try\<close> block is a value that the \<open>except\<close> branch turns into a
  result, so the function returns. What it returns is a dict whose first key is
  \<open>content\<close>, a list of exactly one item of type \<open>text\<close> whose text is a str; the only
  other key it can have is \<open>isError\<close>.
\<close>

theorem handle_tool_call_content_shape:
  "\<exists>t rest. fst (handle_tool_call cfg http name args s) =
       JObj ((''content'', JArr [JObj [(''type'', JStr ''text''), (''text'', JStr t)]]) # rest)
     \<and> (rest = [] \<or> rest = [(''isError'', JBool True)])"
  by (auto simp: handle_tool_call_def text_content_def split: prod.splits sum.splits option.splits)

theorem handle_tool_call_content_shape_witness:
  "\<exists>t rest. fst (handle_tool_call sample_config net_down (JStr ''list_projects'') (JArr []) idle) =
       JObj ((''content'', JArr [JObj [(''type'', JStr ''text''), (''text'', JStr t)]]) # rest)
     \<and> (rest = [] \<or> rest = [(''isError'', JBool True)])"
  using handle_tool_call_content_shape [of sample_config net_down "JStr ''list_projects''" "JArr []" idle] .

section \<open>The Backend Client's results\<close>

text \<open>
  Claim C4, as stated, fails for the 2xx codes outside the accepted list. A response
  with status 203 and the body \<open>{}\<close> yields the failure \<open>HTTP 203\<close> with the body text,
  not the parsed body.
\<close>

theorem status_203_is_failure:
  "fst (vercel_request sample_config net_203 ''GET'' ''/v2/user'' None None idle)
     = JObj [(''error'', JStr ''HTTP 203''), (''details'', JStr ''{}'')]
   \<and> fst (vercel_request sample_config net_203 ''GET'' ''/v2/user'' None None idle) \<noteq> JObj []"
  by code_simp

text \<open>
  Claim C4, amended. For the request it sent, \<open>vercel_request\<close> returns: for status 204
  the payload \<open>{"success": true}\<close>; for the other accepted codes 200, 201 and 202 the
  parsed JSON body (and, when the body does not parse, a failure with the decoder's
  message); for every other status, 2xx or not, a failure with the message
  \<open>HTTP <code>\<close> and the first 500 characters of the body; and for an exception of the
  HTTP client a failure with the exception's message and nothing else.
\<close>

theorem vercel_request_normalizes:
  assumes "sent (snd (vercel_request cfg http method endpoint data params s)) = sent s @ [req]"
  shows "fst (vercel_request cfg http method endpoint data params s) =
     (case http req of
        Raises e \<Rightarrow> JObj [(''error'', JStr (exn_str e))]
      | Responds r \<Rightarrow>
          if status_code r = 204 then JObj [(''success'', JBool True)]
          else if status_code r = 200 \<or> status_code r = 201 \<or> status_code r = 202 then
            (case body_json r of
               Inr v \<Rightarrow> v
             | Inl e \<Rightarrow> JObj [(''error'', JStr (exn_str e))])
          else JObj [(''error'', JStr (''HTTP '' @ str_int (status_code r))),
                     (''details'', JStr (take 500 (body_text r)))])"
  using vercel_request_sent(2) [OF assms]
  by (auto simp: response_result_def split: http_outcome.splits sum.splits)

theorem vercel_request_normalizes_witness:
  "fst (vercel_request sample_config net_204 ''DELETE'' ''/v9/projects/prj_1'' None None idle)
     = JObj [(''success'', JBool True)]
   \<and> fst (vercel_request sample_config net_200 ''GET'' ''/v2/user'' None None idle) = JObj []
   \<and> fst (vercel_request sample_config net_404 ''GET'' ''/v2/user'' None None idle)
     = JObj [(''error'', JStr ''HTTP 404''), (''details'', JStr ''Not Found'')]
   \<and> fst (vercel_request sample_config net_down ''GET'' ''/v2/user'' None None idle)
     = JObj [(''error'', JStr ''timed out'')]"
proof -
  let ?hdrs = "[(''Authorization'', ''Bearer secret''), (''Content-Type'', ''application/json'')]"
  let ?del = "\<lparr>req_method = ''DELETE'', req_url = ''https://api.vercel.com/v9/projects/prj_1'',
               req_headers = ?hdrs, req_json = None, req_params = Some [(''teamId'', JStr ''team_42'')]\<rparr>"
  let ?get = "\<lparr>req_method = ''GET'', req_url = ''https://api.vercel.com/v2/user'',
               req_headers = ?hdrs, req_json = None, req_params = Some [(''teamId'', JStr ''team_42'')]\<rparr>"
  have h1: "sent (snd (vercel_request sample_config net_204 ''DELETE'' ''/v9/projects/prj_1'' None None idle))
            = sent idle @ [?del]"
    by code_simp
  have h2: "sent (snd (vercel_request sample_config net_200 ''GET'' ''/v2/user'' None None idle))
            = sent idle @ [?get]"
    by code_simp
  have h3: "sent (snd (vercel_request sample_config net_404 ''GET'' ''/v2/user'' None None idle))
            = sent idle @ [?get]"
    by code_simp
  have h4: "sent (snd (vercel_request sample_config net_down ''GET'' ''/v2/user'' None None idle))
            = sent idle @ [?get]"
    by code_simp
  have s: "str_int 404 = ''404''"
    by code_simp
  show ?thesis
    using vercel_request_normalizes [OF h1] vercel_request_normalizes [OF h2]
      vercel_request_normalizes [OF h3] vercel_request_normalizes [OF h4] s
    by (simp add: net_204_def net_200_def net_404_def net_down_def exn_str_def)
qed

text \<open>
  Claim C7. With a team identifier configured, the query parameters of every request
  that \<open>vercel_request\<close> sends hold it under \<open>teamId\<close>, whatever the caller supplied
  under that key, and agree with the caller's parameters on every other key. With none
  configured, they are the caller's parameters.
\<close>

theorem team_id_injected:
  assumes "sent (snd (vercel_request cfg http method endpoint data params s)) = sent s @ [req]"
  shows "(VERCEL_TEAM_ID cfg \<noteq> [] \<longrightarrow>
            (\<exists>q. req_params req = Some q
                \<and> map_of q ''teamId'' = Some (JStr (VERCEL_TEAM_ID cfg))
                \<and> (\<forall>k. k \<noteq> ''teamId'' \<longrightarrow>
                      map_of q k = map_of (case params of None \<Rightarrow> [] | Some p \<Rightarrow> p) k)))
       \<and> (VERCEL_TEAM_ID cfg = [] \<longrightarrow> req_params req = params)"
proof -
  have "req_params req = team_params cfg params"
    using vercel_request_sent(1) [OF assms]
    by (auto simp: client_request_def split: if_splits)
  then show ?thesis
    by (auto simp: team_params_def update_conv' split: option.splits)
qed

theorem team_id_injected_witness:
  "sent (snd (vercel_request sample_config net_200 ''GET'' ''/v9/projects'' None
                (Some [(''limit'', JInt 20)]) idle))
     = sent idle @ [\<lparr>req_method = ''GET'', req_url = ''https://api.vercel.com/v9/projects'',
          req_headers = [(''Authorization'', ''Bearer secret''), (''Content-Type'', ''application/json'')],
          req_json = None, req_params = Some [(''limit'', JInt 20), (''teamId'', JStr ''team_42'')]\<rparr>]
   \<and> (\<exists>q. Some [(''limit'', JInt 20), (''teamId'', JStr ''team_42'')] = Some q
          \<and> map_of q ''teamId'' = Some (JStr ''team_42'')
          \<and> (\<forall>k. k \<noteq> ''teamId'' \<longrightarrow> map_of q k = map_of [(''limit'', JInt 20)] k))
   \<and> sent (snd (vercel_request no_team_config net_200 ''GET'' ''/v9/projects'' None
                (Some [(''limit'', JInt 20)]) idle))
     = sent idle @ [\<lparr>req_method = ''GET'', req_url = ''https://api.vercel.com/v9/projects'',
          req_headers = [(''Authorization'', ''Bearer secret''), (''Content-Type'', ''application/json'')],
          req_json = None, req_params = Some [(''limit'', JInt 20)]\<rparr>]"
proof -
  let ?hdrs = "[(''Authorization'', ''Bearer secret''), (''Content-Type'', ''application/json'')]"
  let ?with = "\<lparr>req_method = ''GET'', req_url = ''https://api.vercel.com/v9/projects'',
               req_headers = ?hdrs, req_json = None,
               req_params = Some [(''limit'', JInt 20), (''teamId'', JStr ''team_42'')]\<rparr>"
  let ?without = "\<lparr>req_method = ''GET'', req_url = ''https://api.vercel.com/v9/projects'',
               req_headers = ?hdrs, req_json = None, req_params = Some [(''limit'', JInt 20)]\<rparr>"
  have h1: "sent (snd (vercel_request sample_config net_200 ''GET'' ''/v9/projects'' None
                         (Some [(''limit'', JInt 20)]) idle)) = sent idle @ [?with]"
    by code_simp
  have h2: "sent (snd (vercel_request no_team_config net_200 ''GET'' ''/v9/projects'' None
                         (Some [(''limit'', JInt 20)]) idle)) = sent idle @ [?without]"
    by code_simp
  have team: "VERCEL_TEAM_ID sample_config = ''team_42''"
    by (simp add: sample_config_def)
  show ?thesis
    using team_id_injected [OF h1] team_id_injected [OF h2] h1 h2 team
    by simp
qed

section \<open>The protocol adapter's routing\<close>

text \<open>
  Claim C5. \<open>process_mcp_message\<close> routes four methods. \<open>initialize\<close> returns the fixed
  descriptor, \<open>tools/list\<close> the registry, \<open>tools/call\<close> (its \<open>params\<close> a dict, or
  absent) the dispatcher's result for \<open>params.get("name", "")\<close> and
  \<open>params.get("arguments", {})\<close>, \<open>notifications/initialized\<close> an empty result. Any
  other method value, a missing one included, gets the error object with code -32601
  and the message \<open>Method not found: <method>\<close>.
\<close>

theorem methods_routed:
  assumes "py_get (JObj msg) ''method'' (JStr []) = Inr method"
    and "py_get (JObj msg) ''id'' (JInt 1) = Inr request_id"
  shows "(method = JStr ''initialize'' \<longrightarrow>
            process_mcp_message cfg http (JObj msg) s =
              (Inr (JObj [(''jsonrpc'', JStr ''2.0''), (''id'', request_id),
                          (''result'', JObj
                             [(''protocolVersion'', JStr ''2024-11-05''),
                              (''capabilities'', JObj [(''tools'', JObj [(''listChanged'', JBool True)])]),
                              (''serverInfo'', JObj [(''name'', JStr ''vercel-mcp''),
                                                     (''version'', JStr ''1.0.0'')])])]), s))
       \<and> (method = JStr ''tools/list'' \<longrightarrow>
            process_mcp_message cfg http (JObj msg) s =
              (Inr (JObj [(''jsonrpc'', JStr ''2.0''), (''id'', request_id),
                          (''result'', JObj [(''tools'', JArr TOOLS)])]), s))
       \<and> (method = JStr ''tools/call'' \<longrightarrow> py_get (JObj msg) ''params'' (JObj []) = Inr (JObj ps) \<longrightarrow>
            process_mcp_message cfg http (JObj msg) s =
              (Inr (JObj [(''jsonrpc'', JStr ''2.0''), (''id'', request_id),
                          (''result'', fst (handle_tool_call cfg http
                               (case map_of ps ''name'' of None \<Rightarrow> JStr [] | Some n \<Rightarrow> n)
                               (case map_of ps ''arguments'' of None \<Rightarrow> JObj [] | Some a \<Rightarrow> a) s))]),
               snd (handle_tool_call cfg http
                               (case map_of ps ''name'' of None \<Rightarrow> JStr [] | Some n \<Rightarrow> n)
                               (case map_of ps ''arguments'' of None \<Rightarrow> JObj [] | Some a \<Rightarrow> a) s)))
       \<and> (method = JStr ''notifications/initialized'' \<longrightarrow>
            process_mcp_message cfg http (JObj msg) s =
              (Inr (JObj [(''jsonrpc'', JStr ''2.0''), (''id'', request_id), (''result'', JObj [])]), s))
       \<and> (method \<notin> {JStr ''initialize'', JStr ''tools/list'', JStr ''tools/call'',
                      JStr ''notifications/initialized''} \<longrightarrow>
            process_mcp_message cfg http (JObj msg) s =
              (Inr (JObj [(''jsonrpc'', JStr ''2.0''), (''id'', request_id),
                          (''error'', JObj [(''code'', JInt (- 32601)),
                                            (''message'', JStr (''Method not found: '' @ py_str method))])]), s))"
proof -
  have params: "py_get (JObj msg) ''params'' (JObj []) =
      Inr (case map_of msg ''params'' of None \<Rightarrow> JObj [] | Some v \<Rightarrow> v)"
    by (rule py_get_dict)
  have routed: "process_mcp_message cfg http (JObj msg) s =
      (if method = JStr ''initialize'' then
         (Inr (JObj [(''jsonrpc'', JStr ''2.0''), (''id'', request_id),
                     (''result'', JObj
                        [(''protocolVersion'', JStr ''2024-11-05''),
                         (''capabilities'', JObj [(''tools'', JObj [(''listChanged'', JBool True)])]),
                         (''serverInfo'', JObj [(''name'', JStr ''vercel-mcp''),
                                                (''version'', JStr ''1.0.0'')])])]), s)
       else if method = JStr ''tools/list'' then
         (Inr (JObj [(''jsonrpc'', JStr ''2.0''), (''id'', request_id),
                     (''result'', JObj [(''tools'', JArr TOOLS)])]), s)
       else if method = JStr ''tools/call'' then
         on (py_get (case map_of msg ''params'' of None \<Rightarrow> JObj [] | Some v \<Rightarrow> v) ''name'' (JStr [])) (\<lambda>nm.
         on (py_get (case map_of msg ''params'' of None \<Rightarrow> JObj [] | Some v \<Rightarrow> v) ''arguments'' (JObj [])) (\<lambda>arguments s.
           case handle_tool_call cfg http nm arguments s of
             (result, s') \<Rightarrow>
               (Inr (JObj [(''jsonrpc'', JStr ''2.0''), (''id'', request_id), (''result'', result)]), s'))) s
       else if method = JStr ''notifications/initialized'' then
         (Inr (JObj [(''jsonrpc'', JStr ''2.0''), (''id'', request_id), (''result'', JObj [])]), s)
       else
         (Inr (JObj [(''jsonrpc'', JStr ''2.0''), (''id'', request_id),
                     (''error'', JObj [(''code'', JInt (- 32601)),
                                       (''message'', JStr (''Method not found: '' @ py_str method))])]), s))"
    unfolding process_mcp_message_def assms params on_Inr ..
  show ?thesis
    unfolding routed
    by (auto simp: py_get_dict on_Inr split: prod.splits)
qed


theorem methods_routed_witness:
  \<open>process_mcp_message sample_config net_down (JObj [(''id'', JInt 9), (''method'', JStr ''initialize'')]) idle =
     (Inr (JObj [(''jsonrpc'', JStr ''2.0''), (''id'', JInt 9),
                 (''result'', JObj
                    [(''protocolVersion'', JStr ''2024-11-05''),
                     (''capabilities'', JObj [(''tools'', JObj [(''listChanged'', JBool True)])]),
                     (''serverInfo'', JObj [(''name'', JStr ''vercel-mcp''),
                                            (''version'', JStr ''1.0.0'')])])]), idle)
   \<and> process_mcp_message sample_config net_down (JObj [(''method'', JStr ''tools/list'')]) idle =
     (Inr (JObj [(''jsonrpc'', JStr ''2.0''), (''id'', JInt 1),
                 (''result'', JObj [(''tools'', JArr TOOLS)])]), idle)
   \<and> fst (process_mcp_message sample_config net_200
        (JObj [(''id'', JStr ''a''), (''method'', JStr ''tools/call''),
               (''params'', JObj [(''name'', JStr ''get_user'')])]) idle) =
     Inr (JObj [(''jsonrpc'', JStr ''2.0''), (''id'', JStr ''a''),
                (''result'', JObj [(''content'', JArr [JObj [(''type'', JStr ''text''), (''text'', JStr ''{}'')]])])])
   \<and> process_mcp_message sample_config net_down
        (JObj [(''id'', JInt 2), (''method'', JStr ''notifications/initialized'')]) idle =
     (Inr (JObj [(''jsonrpc'', JStr ''2.0''), (''id'', JInt 2), (''result'', JObj [])]), idle)
   \<and> process_mcp_message sample_config net_down (JObj [(''id'', JInt 4), (''method'', JStr ''bogus'')]) idle =
     (Inr (JObj [(''jsonrpc'', JStr ''2.0''), (''id'', JInt 4),
                 (''error'', JObj [(''code'', JInt (- 32601)),
                                   (''message'', JStr ''Method not found: bogus'')])]), idle)\<close>
proof -
  have m1: "py_get (JObj [(''id'', JInt 9), (''method'', JStr ''initialize'')]) ''method'' (JStr [])
            = Inr (JStr ''initialize'')"
    and i1: "py_get (JObj [(''id'', JInt 9), (''method'', JStr ''initialize'')]) ''id'' (JInt 1) = Inr (JInt 9)"
    by (simp_all add: py_get_def)
  have m2: "py_get (JObj [(''method'', JStr ''tools/list'')]) ''method'' (JStr []) = Inr (JStr ''tools/list'')"
    and i2: "py_get (JObj [(''method'', JStr ''tools/list'')]) ''id'' (JInt 1) = Inr (JInt 1)"
    by (simp_all add: py_get_def)
  have m3: "py_get (JObj [(''id'', JStr ''a''), (''method'', JStr ''tools/call''),
                          (''params'', JObj [(''name'', JStr ''get_user'')])]) ''method'' (JStr [])
            = Inr (JStr ''tools/call'')"
    and i3: "py_get (JObj [(''id'', JStr ''a''), (''method'', JStr ''tools/call''),
                          (''params'', JObj [(''name'', JStr ''get_user'')])]) ''id'' (JInt 1) = Inr (JStr ''a'')"
    and p3: "py_get (JObj [(''id'', JStr ''a''), (''method'', JStr ''tools/call''),
                          (''params'', JObj [(''name'', JStr ''get_user'')])]) ''params'' (JObj [])
            = Inr (JObj [(''name'', JStr ''get_user'')])"
    by (simp_all add: py_get_def)
  have m4: "py_get (JObj [(''id'', JInt 2), (''method'', JStr ''notifications/initialized'')]) ''method'' (JStr [])
            = Inr (JStr ''notifications/initialized'')"
    and i4: "py_get (JObj [(''id'', JInt 2), (''method'', JStr ''notifications/initialized'')]) ''id'' (JInt 1)
            = Inr (JInt 2)"
    by (simp_all add: py_get_def)
  have m5: "py_get (JObj [(''id'', JInt 4), (''method'', JStr ''bogus'')]) ''method'' (JStr []) = Inr (JStr ''bogus'')"
    and i5: "py_get (JObj [(''id'', JInt 4), (''method'', JStr ''bogus'')]) ''id'' (JInt 1) = Inr (JInt 4)"
    by (simp_all add: py_get_def)
  have tool: \<open>fst (handle_tool_call sample_config net_200 (JStr ''get_user'') (JObj []) idle) =
      JObj [(''content'', JArr [JObj [(''type'', JStr ''text''), (''text'', JStr ''{}'')]])]\<close>
    by code_simp
  have c1: "process_mcp_message sample_config net_down (JObj [(''id'', JInt 9), (''method'', JStr ''initialize'')]) idle =
     (Inr (JObj [(''jsonrpc'', JStr ''2.0''), (''id'', JInt 9),
                 (''result'', JObj
                    [(''protocolVersion'', JStr ''2024-11-05''),
                     (''capabilities'', JObj [(''tools'', JObj [(''listChanged'', JBool True)])]),
                     (''serverInfo'', JObj [(''name'', JStr ''vercel-mcp''),
                                            (''version'', JStr ''1.0.0'')])])]), idle)"
    using methods_routed [OF m1 i1, of sample_config net_down idle] by simp
  have c2: "process_mcp_message sample_config net_down (JObj [(''method'', JStr ''tools/list'')]) idle =
     (Inr (JObj [(''jsonrpc'', JStr ''2.0''), (''id'', JInt 1),
                 (''result'', JObj [(''tools'', JArr TOOLS)])]), idle)"
    using methods_routed [OF m2 i2, of sample_config net_down idle] by simp
  have c3: \<open>fst (process_mcp_message sample_config net_200
        (JObj [(''id'', JStr ''a''), (''method'', JStr ''tools/call''),
               (''params'', JObj [(''name'', JStr ''get_user'')])]) idle) =
     Inr (JObj [(''jsonrpc'', JStr ''2.0''), (''id'', JStr ''a''),
                (''result'', JObj [(''content'', JArr [JObj [(''type'', JStr ''text''), (''text'', JStr ''{}'')]])])])\<close>
    using methods_routed [OF m3 i3, of sample_config net_200 idle "[(''name'', JStr ''get_user'')]"] p3 tool
    by simp
  have c4: "process_mcp_message sample_config net_down
        (JObj [(''id'', JInt 2), (''method'', JStr ''notifications/initialized'')]) idle =
     (Inr (JObj [(''jsonrpc'', JStr ''2.0''), (''id'', JInt 2), (''result'', JObj [])]), idle)"
    using methods_routed [OF m4 i4, of sample_config net_down idle] by simp
  have c5: "process_mcp_message sample_config net_down (JObj [(''id'', JInt 4), (''method'', JStr ''bogus'')]) idle =
     (Inr (JObj [(''jsonrpc'', JStr ''2.0''), (''id'', JInt 4),
                 (''error'', JObj [(''code'', JInt (- 32601)),
                                   (''message'', JStr ''Method not found: bogus'')])]), idle)"
    using methods_routed [OF m5 i5, of sample_config net_down idle] by (simp add: py_str_def)
  from c1 c2 c3 c4 c5 show ?thesis by simp
qed

text \<open>
  Claim C10. A \<open>tools/call\<close> message whose \<open>params\<close> have no \<open>name\<close> is dispatched with
  the empty string as the tool name: the reply is a JSON-RPC result with the content
  \<open>Unknown tool: \<close> and \<open>isError\<close> true, and the state is as it was.
\<close>

theorem tools_call_without_name:
  assumes "map_of msg ''method'' = Some (JStr ''tools/call'')"
    and "py_get (JObj msg) ''params'' (JObj []) = Inr (JObj ps)"
    and "map_of ps ''name'' = None"
  shows "process_mcp_message cfg http (JObj msg) s =
     (Inr (JObj [(''jsonrpc'', JStr ''2.0''),
                 (''id'', case map_of msg ''id'' of None \<Rightarrow> JInt 1 | Some i \<Rightarrow> i),
                 (''result'', JObj [(''content'', JArr [JObj [(''type'', JStr ''text''),
                                                   (''text'', JStr ''Unknown tool: '')]]),
                                    (''isError'', JBool True)])]), s)"
proof -
  have "JStr [] \<notin> JStr ` set registry_names"
    by (simp add: registry_names_eq)
  then have "handle_tool_call cfg http (JStr []) a s =
      (JObj [(''content'', JArr [JObj [(''type'', JStr ''text''), (''text'', JStr ''Unknown tool: '')]]),
             (''isError'', JBool True)], s)" for a
    using handle_tool_call_unmatched [of "JStr []" cfg http a s]
    by (simp add: text_content_def py_str_def)
  then show ?thesis
    using tools_call_routed [OF assms(1,2), of cfg http s] assms(3) by simp
qed

theorem tools_call_without_name_witness:
  "process_mcp_message sample_config net_down
     (JObj [(''jsonrpc'', JStr ''2.0''), (''id'', JInt 3), (''method'', JStr ''tools/call''),
            (''params'', JObj [(''arguments'', JObj [])])]) idle =
     (Inr (JObj [(''jsonrpc'', JStr ''2.0''), (''id'', JInt 3),
                 (''result'', JObj [(''content'', JArr [JObj [(''type'', JStr ''text''),
                                                   (''text'', JStr ''Unknown tool: '')]]),
                                    (''isError'', JBool True)])]), idle)"
proof -
  have h1: "map_of [(''jsonrpc'', JStr ''2.0''), (''id'', JInt 3), (''method'', JStr ''tools/call''),
                    (''params'', JObj [(''arguments'', JObj [])])] ''method'' = Some (JStr ''tools/call'')"
    by simp
  have h2: "py_get (JObj [(''jsonrpc'', JStr ''2.0''), (''id'', JInt 3), (''method'', JStr ''tools/call''),
                          (''params'', JObj [(''arguments'', JObj [])])]) ''params'' (JObj [])
            = Inr (JObj [(''arguments'', JObj [])])"
    by (simp add: py_get_def)
  have h3: "map_of [(''arguments'', JObj [])] ''name'' = None"
    by simp
  show ?thesis
    using tools_call_without_name [OF h1 h2 h3, of sample_config net_down idle] by simp
qed

text \<open>
  Claim C6 against the code. A \<open>tools/call\<close> request with the id 7 whose \<open>params\<close> are
  \<open>null\<close>: \<open>params.get\<close> raises inside \<open>process_mcp_message\<close>, the \<open>except\<close> branch of
  \<open>mcp_handler\<close> answers with code -32603 and status 500, and the id of that answer is
  the constant 1, not 7.
\<close>

theorem internal_error_id_fixed:
  "mcp_handler cfg http
     (Inr (JObj [(''jsonrpc'', JStr ''2.0''), (''id'', JInt 7), (''method'', JStr ''tools/call''),
                 (''params'', JNull)])) s =
     ((JObj [(''jsonrpc'', JStr ''2.0''), (''id'', JInt 1),
             (''error'', JObj [(''code'', JInt (- 32603)),
                               (''message'', JStr ([QUOTE] @ ''NoneType'' @ [QUOTE] @ '' object has no attribute ''
                                                   @ [QUOTE] @ ''get'' @ [QUOTE]))])], 500), s)"
  by (simp add: mcp_handler_def mcp_handler_try_def process_mcp_message_def on_def py_get_def
      truthy_def type_name_def exn_str_def)

end
